theory Spec2Isabelle
  imports Main "HOL-Library.AList"
begin

section \<open>dynfunc: calling a function from a mapping of named values\<close>

text \<open>
  A shallow embedding of \<^verbatim>\<open>src/dynfunc/__init__.py\<close>. The module has three
  functions: \<^verbatim>\<open>_get_arg_value\<close> looks one parameter up in the data mapping,
  \<^verbatim>\<open>populate_args\<close> loops over the parameters of \<^verbatim>\<open>inspect.signature(func)\<close>
  and fills a list \<^verbatim>\<open>args\<close> and a dict \<^verbatim>\<open>kwargs\<close>, and \<^verbatim>\<open>call_with_args\<close>
  calls the function with them.
\<close>

subsection \<open>Data\<close>

text \<open>
  A Python dict keeps its keys in insertion order and \<^verbatim>\<open>list(d.keys())\<close> shows that
  order, so a dict is an association list here: \<open>map_of d k\<close> is \<^verbatim>\<open>d[k]\<close> (\<open>None\<close>
  is the \<^verbatim>\<open>KeyError\<close>), \<open>map fst d\<close> is \<^verbatim>\<open>list(d.keys())\<close> and \<open>AList.update k v d\<close>
  is \<^verbatim>\<open>d[k] = v\<close> (an existing key keeps its place, a new key goes to the end).
\<close>

type_synonym 'v dict = "(string \<times> 'v) list"

text \<open>\<^verbatim>\<open>inspect._ParameterKind\<close>, an enumeration of five members, in the order of their values.\<close>

datatype kind =
  POSITIONAL_ONLY | POSITIONAL_OR_KEYWORD | VAR_POSITIONAL | KEYWORD_ONLY | VAR_KEYWORD

text \<open>
  \<^verbatim>\<open>inspect.Parameter\<close>: the fields the module reads. \<open>default_value = None\<close> is
  \<^verbatim>\<open>param.default is param.empty\<close>.
\<close>

record 'v parameter =
  name :: string
  kind :: kind
  default_value :: "'v option"

text \<open>
  The exceptions that leave the module. \<^verbatim>\<open>ParameterError\<close> is the module's own class,
  with its two attributes \<^verbatim>\<open>name\<close> and \<^verbatim>\<open>valid_args\<close> (its message is formatted from
  these two); \<^verbatim>\<open>TypeError\<close> is the builtin, with its message; \<open>Raised\<close> stands for
  any other exception that the called function raises, given by its \<^verbatim>\<open>repr\<close>.
\<close>

datatype exn =
  ParameterError string "string list"
  | TypeError string
  | Raised string

text \<open>
  A callable: the ordered parameters of its signature (\<^verbatim>\<open>sig.parameters.items()\<close> yields
  each parameter under its own name), and what \<^verbatim>\<open>func(*args, **kwargs)\<close> gives for a
  list \<^verbatim>\<open>args\<close> and a dict \<^verbatim>\<open>kwargs\<close>: the value returned or the exception raised,
  be it raised by the body or by the binding of the arguments. The called function is
  taken as a function of the arguments it is called with; what it does to objects that
  it reaches on its own is its own effect, not the module's.
\<close>

record 'v callable =
  sig :: "'v parameter list"
  call :: "'v list \<Rightarrow> 'v dict \<Rightarrow> exn + 'v"

text \<open>
  The objects \<^verbatim>\<open>populate_args\<close> works on: the caller's mapping and the two containers
  it creates, \<^verbatim>\<open>args = []\<close> and \<^verbatim>\<open>kwargs = {}\<close>. The two are fresh objects, so
  neither is the caller's mapping.
\<close>

record 'v frame =
  data_map :: "'v dict"
  args :: "'v list"
  kwargs :: "'v dict"

subsection \<open>The functions of the module\<close>

text \<open>\<^verbatim>\<open>"'{}'".format(key)\<close>: the key between two apostrophes.\<close>

definition quoted :: "string \<Rightarrow> string" where
  "quoted key = CHR 0x27 # key @ [CHR 0x27]"

text \<open>\<^verbatim>\<open>"{!r}".format(param.kind)\<close>, the \<^verbatim>\<open>repr\<close> of a member of the enumeration.\<close>

fun kind_repr :: "kind \<Rightarrow> string" where
  "kind_repr POSITIONAL_ONLY = ''<_ParameterKind.POSITIONAL_ONLY: 0>''"
| "kind_repr POSITIONAL_OR_KEYWORD = ''<_ParameterKind.POSITIONAL_OR_KEYWORD: 1>''"
| "kind_repr VAR_POSITIONAL = ''<_ParameterKind.VAR_POSITIONAL: 2>''"
| "kind_repr KEYWORD_ONLY = ''<_ParameterKind.KEYWORD_ONLY: 3>''"
| "kind_repr VAR_KEYWORD = ''<_ParameterKind.VAR_KEYWORD: 4>''"

text \<open>
  \<^verbatim>\<open>_get_arg_value(param, data_map)\<close>. It only reads the mapping: \<^verbatim>\<open>data_map[param.name]\<close>
  and, in the handler of the \<^verbatim>\<open>KeyError\<close>, \<^verbatim>\<open>list(data_map.keys())\<close>. The key of the
  \<^verbatim>\<open>KeyError\<close>, \<^verbatim>\<open>e.args[0]\<close>, is the name that was looked up.
\<close>

definition get_arg_value :: "'v parameter \<Rightarrow> 'v dict \<Rightarrow> exn + 'v" where
  "get_arg_value param dm =
     (case map_of dm (name param) of
        Some v \<Rightarrow> Inr v
      | None \<Rightarrow>
          (case default_value param of
             None \<Rightarrow> Inl (ParameterError (name param) (map fst dm))
           | Some dv \<Rightarrow> Inr dv))"

text \<open>\<^verbatim>\<open>_args_add = args.append\<close> and \<^verbatim>\<open>_kwargs_add = kwargs.__setitem__\<close>.\<close>

definition args_add :: "'v \<Rightarrow> 'v frame \<Rightarrow> 'v frame" where
  "args_add v s = s\<lparr>args := args s @ [v]\<rparr>"

definition kwargs_add :: "string \<Rightarrow> 'v \<Rightarrow> 'v frame \<Rightarrow> 'v frame" where
  "kwargs_add key v s = s\<lparr>kwargs := AList.update key v (kwargs s)\<rparr>"

text \<open>
  The \<^verbatim>\<open>for\<close> loop of \<^verbatim>\<open>populate_args\<close>, with the branches in the order of the source.
  It returns the exception that stopped it, or \<open>()\<close>, and the frame as the loop left it.
  The last branch cannot be reached, the enumeration having five members.
\<close>

fun populate_loop :: "'v parameter list \<Rightarrow> 'v frame \<Rightarrow> (exn + unit) \<times> 'v frame" where
  "populate_loop [] s = (Inr (), s)"
| "populate_loop (param # rest) s =
     (if kind param = KEYWORD_ONLY then
        (case get_arg_value param (data_map s) of
           Inl e \<Rightarrow> (Inl e, s)
         | Inr v \<Rightarrow> populate_loop rest (kwargs_add (name param) v s))
      else if kind param = POSITIONAL_ONLY then
        (case get_arg_value param (data_map s) of
           Inl e \<Rightarrow> (Inl e, s)
         | Inr v \<Rightarrow> populate_loop rest (args_add v s))
      else if kind param = POSITIONAL_OR_KEYWORD then
        (case get_arg_value param (data_map s) of
           Inl e \<Rightarrow> (Inl e, s)
         | Inr v \<Rightarrow> populate_loop rest (kwargs_add (name param) v s))
      else if kind param = VAR_KEYWORD then
        (Inl (TypeError (''Unable to populate VAR_KEYWORD parameter '' @ quoted (name param))), s)
      else if kind param = VAR_POSITIONAL then
        (Inl (TypeError (''Unable to populate VAR_POSITIONAL parameter '' @ quoted (name param))), s)
      else
        (Inl (TypeError (''Unknown parameter type '' @ kind_repr (kind param))), s))"

text \<open>
  \<^verbatim>\<open>populate_args(func, data_map)\<close>: the pair \<^verbatim>\<open>(args, kwargs)\<close> or the exception,
  and the caller's mapping as the function leaves it.
\<close>

definition populate_args ::
  "'v callable \<Rightarrow> 'v dict \<Rightarrow> (exn + 'v list \<times> 'v dict) \<times> 'v dict" where
  "populate_args func dm =
     (case populate_loop (sig func) \<lparr>data_map = dm, args = [], kwargs = []\<rparr> of
        (Inl e, s) \<Rightarrow> (Inl e, data_map s)
      | (Inr u, s) \<Rightarrow> (Inr (args s, kwargs s), data_map s))"

text \<open>
  \<^verbatim>\<open>call_with_args(func, arg_data)\<close>: an exception of \<^verbatim>\<open>populate_args\<close> leaves the
  function as it is, otherwise the result is that of \<^verbatim>\<open>func(*args, **kwargs)\<close>,
  whether a value or an exception: there is no handler around the call. The second
  component is the caller's mapping as the function leaves it.
\<close>

definition call_with_args ::
  "'v callable \<Rightarrow> 'v dict \<Rightarrow> (exn + 'v) \<times> 'v dict" where
  "call_with_args func arg_data =
     (case populate_args func arg_data of
        (Inl e, m) \<Rightarrow> (Inl e, m)
      | (Inr (a, k), m) \<Rightarrow> (call func a k, m))"

subsection \<open>The same functions, with the mapping and the called function as objects\<close>

text \<open>
  Above, the data mapping is a built-in dict, which a lookup cannot change, and the called
  function is a function of its arguments. What becomes of the caller's mapping is a
  question about objects, so here the three functions are given again with the mapping
  as an object that a lookup may change and with a called function that may write to it.

  The mapping is a dict or a \<^verbatim>\<open>collections.defaultdict\<close>, which is a dict with a
  \<^verbatim>\<open>default_factory\<close>: \<^verbatim>\<open>m[key]\<close> for a key that is missing stores the value that the
  factory makes under that key and returns it, and raises no \<^verbatim>\<open>KeyError\<close>.
  \<open>default_factory = None\<close> is the plain dict; otherwise it holds the value that the
  factory makes.
\<close>

record 'v mapping =
  items :: "'v dict"
  default_factory :: "'v option"

text \<open>\<^verbatim>\<open>m[key]\<close>: the value, or \<open>None\<close> for the \<^verbatim>\<open>KeyError\<close>, and the mapping afterwards.\<close>

definition getitem :: "'v mapping \<Rightarrow> string \<Rightarrow> 'v option \<times> 'v mapping" where
  "getitem m key =
     (case map_of (items m) key of
        Some v \<Rightarrow> (Some v, m)
      | None \<Rightarrow>
          (case default_factory m of
             None \<Rightarrow> (None, m)
           | Some v \<Rightarrow> (Some v, m\<lparr>items := AList.update key v (items m)\<rparr>)))"

text \<open>
  The called function: its signature, and what \<^verbatim>\<open>func(*args, **kwargs)\<close> gives and does
  to the caller's mapping, which it may reach on its own (a closure, a global).
\<close>

record 'v effectful =
  eff_sig :: "'v parameter list"
  eff_call :: "'v list \<Rightarrow> 'v dict \<Rightarrow> 'v mapping \<Rightarrow> (exn + 'v) \<times> 'v mapping"

text \<open>The three objects of \<^verbatim>\<open>populate_args\<close>: the caller's mapping, \<^verbatim>\<open>args\<close>, \<^verbatim>\<open>kwargs\<close>.\<close>

record 'v objects =
  obj_data_map :: "'v mapping"
  obj_args :: "'v list"
  obj_kwargs :: "'v dict"

text \<open>
  \<^verbatim>\<open>_get_arg_value(param, data_map)\<close>: \<^verbatim>\<open>data_map[param.name]\<close>, and in the handler
  \<^verbatim>\<open>list(data_map.keys())\<close>, which reads only.
\<close>

definition get_arg_value_obj :: "'v parameter \<Rightarrow> 'v mapping \<Rightarrow> (exn + 'v) \<times> 'v mapping" where
  "get_arg_value_obj param dm =
     (case getitem dm (name param) of
        (Some v, dm') \<Rightarrow> (Inr v, dm')
      | (None, dm') \<Rightarrow>
          (case default_value param of
             None \<Rightarrow> (Inl (ParameterError (name param) (map fst (items dm'))), dm')
           | Some dv \<Rightarrow> (Inr dv, dm')))"

text \<open>The loop of \<^verbatim>\<open>populate_args\<close>, branch for branch as above.\<close>

fun populate_loop_obj :: "'v parameter list \<Rightarrow> 'v objects \<Rightarrow> (exn + unit) \<times> 'v objects" where
  "populate_loop_obj [] s = (Inr (), s)"
| "populate_loop_obj (param # rest) s =
     (if kind param = KEYWORD_ONLY then
        (case get_arg_value_obj param (obj_data_map s) of
           (Inl e, dm) \<Rightarrow> (Inl e, s\<lparr>obj_data_map := dm\<rparr>)
         | (Inr v, dm) \<Rightarrow>
             populate_loop_obj rest
               (s\<lparr>obj_data_map := dm,
                   obj_kwargs := AList.update (name param) v (obj_kwargs s)\<rparr>))
      else if kind param = POSITIONAL_ONLY then
        (case get_arg_value_obj param (obj_data_map s) of
           (Inl e, dm) \<Rightarrow> (Inl e, s\<lparr>obj_data_map := dm\<rparr>)
         | (Inr v, dm) \<Rightarrow>
             populate_loop_obj rest (s\<lparr>obj_data_map := dm, obj_args := obj_args s @ [v]\<rparr>))
      else if kind param = POSITIONAL_OR_KEYWORD then
        (case get_arg_value_obj param (obj_data_map s) of
           (Inl e, dm) \<Rightarrow> (Inl e, s\<lparr>obj_data_map := dm\<rparr>)
         | (Inr v, dm) \<Rightarrow>
             populate_loop_obj rest
               (s\<lparr>obj_data_map := dm,
                   obj_kwargs := AList.update (name param) v (obj_kwargs s)\<rparr>))
      else if kind param = VAR_KEYWORD then
        (Inl (TypeError (''Unable to populate VAR_KEYWORD parameter '' @ quoted (name param))), s)
      else if kind param = VAR_POSITIONAL then
        (Inl (TypeError (''Unable to populate VAR_POSITIONAL parameter '' @ quoted (name param))), s)
      else
        (Inl (TypeError (''Unknown parameter type '' @ kind_repr (kind param))), s))"

text \<open>\<^verbatim>\<open>populate_args\<close> and \<^verbatim>\<open>call_with_args\<close>, with the mapping as they leave it.\<close>

definition populate_args_obj ::
  "'v effectful \<Rightarrow> 'v mapping \<Rightarrow> (exn + 'v list \<times> 'v dict) \<times> 'v mapping" where
  "populate_args_obj func dm =
     (case populate_loop_obj (eff_sig func) \<lparr>obj_data_map = dm, obj_args = [], obj_kwargs = []\<rparr> of
        (Inl e, s) \<Rightarrow> (Inl e, obj_data_map s)
      | (Inr u, s) \<Rightarrow> (Inr (obj_args s, obj_kwargs s), obj_data_map s))"

definition call_with_args_obj ::
  "'v effectful \<Rightarrow> 'v mapping \<Rightarrow> (exn + 'v) \<times> 'v mapping" where
  "call_with_args_obj func arg_data =
     (case populate_args_obj func arg_data of
        (Inl e, m) \<Rightarrow> (Inl e, m)
      | (Inr (a, k), m) \<Rightarrow> eff_call func a k m)"

text \<open>
  A function of its arguments, as a called function that leaves the mapping alone, and a
  built-in dict as a mapping object.
\<close>

definition leaving_mapping :: "'v callable \<Rightarrow> 'v effectful" where
  "leaving_mapping f = \<lparr>eff_sig = sig f, eff_call = (\<lambda>a k m. (call f a k, m))\<rparr>"

definition plain_dict :: "'v dict \<Rightarrow> 'v mapping" where
  "plain_dict d = \<lparr>items = d, default_factory = None\<rparr>"

subsection \<open>Notions used to state the properties\<close>

text \<open>
  The value a parameter is given: the one under its name in the mapping, else its default,
  else none.
\<close>

definition supplied_value :: "'v parameter \<Rightarrow> 'v dict \<Rightarrow> 'v option" where
  "supplied_value p d =
     (case map_of d (name p) of Some v \<Rightarrow> Some v | None \<Rightarrow> default_value p)"

text \<open>The two kinds that \<^verbatim>\<open>populate_args\<close> refuses.\<close>

definition is_var :: "kind \<Rightarrow> bool" where
  "is_var k = (k = VAR_POSITIONAL \<or> k = VAR_KEYWORD)"

text \<open>The message of the \<^verbatim>\<open>TypeError\<close> raised for a parameter of such a kind.\<close>

definition unsupported_message :: "kind \<Rightarrow> string \<Rightarrow> string" where
  "unsupported_message k key =
     (if k = VAR_KEYWORD then ''Unable to populate VAR_KEYWORD parameter '' @ quoted key
      else ''Unable to populate VAR_POSITIONAL parameter '' @ quoted key)"

text \<open>
  A parameter that the loop gets past, and the exception that the loop raises at a
  parameter that it does not get past.
\<close>

definition resolvable :: "'v parameter \<Rightarrow> 'v dict \<Rightarrow> bool" where
  "resolvable p d = (\<not> is_var (kind p) \<and> supplied_value p d \<noteq> None)"

definition resolution_error :: "'v parameter \<Rightarrow> 'v dict \<Rightarrow> exn" where
  "resolution_error p d =
     (if is_var (kind p) then TypeError (unsupported_message (kind p) (name p))
      else ParameterError (name p) (map fst d))"

text \<open>
  The keyword arguments of a direct call \<^verbatim>\<open>func(n1=d[n1], n2=d[n2], ...)\<close> that names the
  parameters in declared order and takes each value from the mapping.
\<close>

definition named_values :: "'v parameter list \<Rightarrow> 'v dict \<Rightarrow> 'v dict" where
  "named_values ps d =
     concat (map (\<lambda>p. case map_of d (name p) of Some v \<Rightarrow> [(name p, v)] | None \<Rightarrow> []) ps)"

text \<open>An exception with the key list of a \<^verbatim>\<open>ParameterError\<close> replaced, any other one as it is.\<close>

fun with_valid_args :: "string list \<Rightarrow> exn \<Rightarrow> exn" where
  "with_valid_args ks (ParameterError n old) = ParameterError n ks"
| "with_valid_args ks (TypeError m) = TypeError m"
| "with_valid_args ks (Raised x) = Raised x"

subsection \<open>Example values and callables\<close>

text \<open>
  Python values, as far as the examples of the docstring of \<^verbatim>\<open>call_with_args\<close> need
  them.
\<close>

datatype pyvalue =
  PyInt int | PyStr string | PyTuple "pyvalue list" | PyList "pyvalue list"
  | PyDict "(string \<times> pyvalue) list"

text \<open>
  In the examples, a call that Python refuses to bind (a missing, an unknown or a doubled
  argument) is a \<^verbatim>\<open>TypeError\<close>; the text of Python's own message is not modelled.
\<close>

definition binding_error :: "exn + pyvalue" where
  "binding_error = Inl (TypeError ''arguments do not match the signature'')"

text \<open>\<^verbatim>\<open>def a(n): return n**2\<close>, on integers.\<close>

definition square :: "pyvalue callable" where
  "square =
     \<lparr>sig = [\<lparr>name = ''n'', kind = POSITIONAL_OR_KEYWORD, default_value = None\<rparr>],
      call = (\<lambda>a k.
        if a = [] \<and> map fst k = [''n''] then
          (case map_of k ''n'' of
             Some (PyInt n) \<Rightarrow> Inr (PyInt (n * n))
           | _ \<Rightarrow> Inl (TypeError ''unsupported operand type(s) for ** or pow()''))
        else if length a = 1 \<and> k = [] then
          (case hd a of
             PyInt n \<Rightarrow> Inr (PyInt (n * n))
           | _ \<Rightarrow> Inl (TypeError ''unsupported operand type(s) for ** or pow()''))
        else binding_error)\<rparr>"

text \<open>\<^verbatim>\<open>def func(*, param): return param\<close>.\<close>

definition func_param :: "pyvalue callable" where
  "func_param =
     \<lparr>sig = [\<lparr>name = ''param'', kind = KEYWORD_ONLY, default_value = None\<rparr>],
      call = (\<lambda>a k.
        if a = [] \<and> map fst k = [''param''] then
          (case map_of k ''param'' of Some v \<Rightarrow> Inr v | None \<Rightarrow> binding_error)
        else binding_error)\<rparr>"

text \<open>\<^verbatim>\<open>lambda *args: args\<close> and \<^verbatim>\<open>lambda **args: args\<close>.\<close>

definition lambda_var_positional :: "pyvalue callable" where
  "lambda_var_positional =
     \<lparr>sig = [\<lparr>name = ''args'', kind = VAR_POSITIONAL, default_value = None\<rparr>],
      call = (\<lambda>a k. if k = [] then Inr (PyTuple a) else binding_error)\<rparr>"

definition lambda_var_keyword :: "pyvalue callable" where
  "lambda_var_keyword =
     \<lparr>sig = [\<lparr>name = ''args'', kind = VAR_KEYWORD, default_value = None\<rparr>],
      call = (\<lambda>a k. if a = [] then Inr (PyDict k) else binding_error)\<rparr>"

text \<open>\<^verbatim>\<open>lambda a, b=1, c=2: (a, b, c)\<close>, called by keyword.\<close>

definition lambda_abc :: "pyvalue callable" where
  "lambda_abc =
     \<lparr>sig = [\<lparr>name = ''a'', kind = POSITIONAL_OR_KEYWORD, default_value = None\<rparr>,
             \<lparr>name = ''b'', kind = POSITIONAL_OR_KEYWORD, default_value = Some (PyInt 1)\<rparr>,
             \<lparr>name = ''c'', kind = POSITIONAL_OR_KEYWORD, default_value = Some (PyInt 2)\<rparr>],
      call = (\<lambda>a k.
        if a = [] \<and> distinct (map fst k) \<and> set (map fst k) \<subseteq> {''a'', ''b'', ''c''} then
          (case map_of k ''a'' of
             None \<Rightarrow> binding_error
           | Some va \<Rightarrow>
               Inr (PyTuple [va,
                 (case map_of k ''b'' of Some vb \<Rightarrow> vb | None \<Rightarrow> PyInt 1),
                 (case map_of k ''c'' of Some vc \<Rightarrow> vc | None \<Rightarrow> PyInt 2)]))
        else binding_error)\<rparr>"

text \<open>
  \<^verbatim>\<open>def first_of(a, *rest): return a\<close>: a parameter without default before a
  variable-positional one.
\<close>

definition first_of :: "pyvalue callable" where
  "first_of =
     \<lparr>sig = [\<lparr>name = ''a'', kind = POSITIONAL_OR_KEYWORD, default_value = None\<rparr>,
             \<lparr>name = ''rest'', kind = VAR_POSITIONAL, default_value = None\<rparr>],
      call = (\<lambda>a k.
        if a = [] \<and> map fst k = [''a''] then
          (case map_of k ''a'' of Some v \<Rightarrow> Inr v | None \<Rightarrow> binding_error)
        else if a \<noteq> [] \<and> k = [] then Inr (hd a)
        else binding_error)\<rparr>"

text \<open>
  \<^verbatim>\<open>def pair_then(x, y=0, /, *, z): return (x, y, z)\<close>: two positional-only parameters
  and a keyword-only one, called with both positional arguments.
\<close>

definition pair_then :: "pyvalue callable" where
  "pair_then =
     \<lparr>sig = [\<lparr>name = ''x'', kind = POSITIONAL_ONLY, default_value = None\<rparr>,
             \<lparr>name = ''y'', kind = POSITIONAL_ONLY, default_value = Some (PyInt 0)\<rparr>,
             \<lparr>name = ''z'', kind = KEYWORD_ONLY, default_value = None\<rparr>],
      call = (\<lambda>a k.
        if length a = 2 \<and> map fst k = [''z''] then
          (case map_of k ''z'' of Some vz \<Rightarrow> Inr (PyTuple (a @ [vz])) | None \<Rightarrow> binding_error)
        else if length a = 1 \<and> map fst k = [''z''] then
          (case map_of k ''z'' of
             Some vz \<Rightarrow> Inr (PyTuple (a @ [PyInt 0, vz]))
           | None \<Rightarrow> binding_error)
        else binding_error)\<rparr>"

text \<open>\<^verbatim>\<open>def reciprocal(n): return 1 // n\<close>, on integers: it raises for \<^verbatim>\<open>n = 0\<close>.\<close>

definition reciprocal :: "pyvalue callable" where
  "reciprocal =
     \<lparr>sig = [\<lparr>name = ''n'', kind = POSITIONAL_OR_KEYWORD, default_value = None\<rparr>],
      call = (\<lambda>a k.
        if a = [] \<and> map fst k = [''n''] then
          (case map_of k ''n'' of
             Some (PyInt n) \<Rightarrow>
               if n = 0 then Inl (Raised ''ZeroDivisionError(integer division or modulo by zero)'') else Inr (PyInt (1 div n))
           | _ \<Rightarrow> Inl (TypeError ''unsupported operand type(s) for //''))
        else binding_error)\<rparr>"



text \<open>\<^verbatim>\<open>lambda *args, **kw: (args, kw)\<close>: two parameters of variable kinds.\<close>

definition lambda_args_kw :: "pyvalue callable" where
  "lambda_args_kw =
     \<lparr>sig = [\<lparr>name = ''args'', kind = VAR_POSITIONAL, default_value = None\<rparr>,
             \<lparr>name = ''kw'', kind = VAR_KEYWORD, default_value = None\<rparr>],
      call = (\<lambda>a k. Inr (PyTuple [PyTuple a, PyDict k]))\<rparr>"

text \<open>\<^verbatim>\<open>collections.defaultdict(int)\<close>, empty: its factory makes 0.\<close>

definition defaultdict_int :: "pyvalue mapping" where
  "defaultdict_int = \<lparr>items = [], default_factory = Some (PyInt 0)\<rparr>"

text \<open>
  \<^verbatim>\<open>def remember(n): seen['last'] = n; return n\<close>, where \<^verbatim>\<open>seen\<close> is the very mapping
  that the caller passes to \<^verbatim>\<open>call_with_args\<close>.
\<close>

definition remember :: "pyvalue effectful" where
  "remember =
     \<lparr>eff_sig = [\<lparr>name = ''n'', kind = POSITIONAL_OR_KEYWORD, default_value = None\<rparr>],
      eff_call = (\<lambda>a k m.
        if a = [] \<and> map fst k = [''n''] then
          (case map_of k ''n'' of
             Some v \<Rightarrow> (Inr v, m\<lparr>items := AList.update ''last'' v (items m)\<rparr>)
           | None \<Rightarrow> (binding_error, m))
        else (binding_error, m))\<rparr>"

subsection \<open>Lemmas on the loop\<close>

lemma get_arg_value_supplied:
  "get_arg_value p d =
     (case supplied_value p d of
        Some v \<Rightarrow> Inr v
      | None \<Rightarrow> Inl (ParameterError (name p) (map fst d)))"
  by (simp add: get_arg_value_def supplied_value_def split: option.splits)

lemma data_map_args_add [simp]: "data_map (args_add v s) = data_map s"
  by (simp add: args_add_def)

lemma data_map_kwargs_add [simp]: "data_map (kwargs_add k v s) = data_map s"
  by (simp add: kwargs_add_def)

lemma args_args_add [simp]: "args (args_add v s) = args s @ [v]"
  by (simp add: args_add_def)

lemma args_kwargs_add [simp]: "args (kwargs_add k v s) = args s"
  by (simp add: kwargs_add_def)

lemma kwargs_args_add [simp]: "kwargs (args_add v s) = kwargs s"
  by (simp add: args_add_def)

lemma kwargs_kwargs_add [simp]: "kwargs (kwargs_add k v s) = AList.update k v (kwargs s)"
  by (simp add: kwargs_add_def)

lemma loop_outcome:
  "fst (populate_loop ps s) =
     (case find (\<lambda>p. \<not> resolvable p (data_map s)) ps of
        None \<Rightarrow> Inr ()
      | Some q \<Rightarrow> Inl (resolution_error q (data_map s)))"
proof (induction ps arbitrary: s)
  case Nil
  show ?case by simp
next
  case (Cons p ps)
  show ?case
  proof (cases "kind p")
    case VAR_POSITIONAL
    then show ?thesis
      by (simp add: resolvable_def is_var_def resolution_error_def unsupported_message_def)
  next
    case VAR_KEYWORD
    then show ?thesis
      by (simp add: resolvable_def is_var_def resolution_error_def unsupported_message_def)
  next
    case POSITIONAL_ONLY
    then show ?thesis
      by (cases "supplied_value p (data_map s)")
        (simp_all add: Cons.IH get_arg_value_supplied resolvable_def is_var_def
           resolution_error_def cong: option.case_cong)
  next
    case POSITIONAL_OR_KEYWORD
    then show ?thesis
      by (cases "supplied_value p (data_map s)")
        (simp_all add: Cons.IH get_arg_value_supplied resolvable_def is_var_def
           resolution_error_def cong: option.case_cong)
  next
    case KEYWORD_ONLY
    then show ?thesis
      by (cases "supplied_value p (data_map s)")
        (simp_all add: Cons.IH get_arg_value_supplied resolvable_def is_var_def
           resolution_error_def cong: option.case_cong)
  qed
qed

lemma loop_args:
  "fst (populate_loop ps s) = Inr u \<Longrightarrow>
   map Some (args (snd (populate_loop ps s))) =
     map Some (args s) @
     map (\<lambda>p. supplied_value p (data_map s)) (filter (\<lambda>p. kind p = POSITIONAL_ONLY) ps)"
proof (induction ps arbitrary: s)
  case Nil
  show ?case by simp
next
  case (Cons p ps)
  then show ?case
    by (cases "kind p"; cases "supplied_value p (data_map s)")
      (simp_all add: get_arg_value_supplied)
qed

lemma update_fresh: "k \<notin> fst ` set xs \<Longrightarrow> AList.update k v xs = xs @ [(k, v)]"
  by (induction xs) auto

lemma loop_kwargs:
  "fst (populate_loop ps s) = Inr u \<Longrightarrow> distinct (map name ps) \<Longrightarrow>
   \<forall>p\<in>set ps. name p \<notin> fst ` set (kwargs s) \<Longrightarrow>
   map (\<lambda>(n, v). (n, Some v)) (kwargs (snd (populate_loop ps s))) =
     map (\<lambda>(n, v). (n, Some v)) (kwargs s) @
     map (\<lambda>p. (name p, supplied_value p (data_map s)))
       (filter (\<lambda>p. kind p \<noteq> POSITIONAL_ONLY) ps)"
proof (induction ps arbitrary: s)
  case Nil
  show ?case by simp
next
  case (Cons p ps)
  show ?case
  proof (cases "supplied_value p (data_map s)")
    case None
    with Cons.prems(1) show ?thesis
      by (cases "kind p") (simp_all add: get_arg_value_supplied)
  next
    case (Some v)
    have fresh: "name p \<notin> fst ` set (kwargs s)"
      using Cons.prems(3) by simp
    have "name q \<noteq> name p" if "q \<in> set ps" for q
      using Cons.prems(2) that by (auto simp: image_iff)
    then have later: "\<forall>q\<in>set ps. name q \<notin> fst ` set (kwargs s @ [(name p, v)])"
      using Cons.prems(3) by auto
    have dist: "distinct (map name ps)"
      using Cons.prems(2) by simp
    show ?thesis
    proof (cases "kind p")
      case POSITIONAL_ONLY
      with Some Cons.prems(1) Cons.prems(3) dist
        Cons.IH [of "args_add v s"] show ?thesis
        by (simp add: get_arg_value_supplied)
    next
      case POSITIONAL_OR_KEYWORD
      with Some Cons.prems(1) later dist fresh
        Cons.IH [of "kwargs_add (name p) v s"] show ?thesis
        by (simp add: get_arg_value_supplied update_fresh)
    next
      case KEYWORD_ONLY
      with Some Cons.prems(1) later dist fresh
        Cons.IH [of "kwargs_add (name p) v s"] show ?thesis
        by (simp add: get_arg_value_supplied update_fresh)
    next
      case VAR_POSITIONAL
      with Cons.prems(1) show ?thesis by simp
    next
      case VAR_KEYWORD
      with Cons.prems(1) show ?thesis by simp
    qed
  qed
qed

lemma loop_agree:
  assumes "\<forall>p\<in>set ps. map_of (data_map s1) (name p) = map_of (data_map s2) (name p)"
    and "args s1 = args s2" and "kwargs s1 = kwargs s2"
  shows "fst (populate_loop ps s2) =
           map_sum (with_valid_args (map fst (data_map s2))) id (fst (populate_loop ps s1))
         \<and> args (snd (populate_loop ps s2)) = args (snd (populate_loop ps s1))
         \<and> kwargs (snd (populate_loop ps s2)) = kwargs (snd (populate_loop ps s1))"
  using assms
proof (induction ps arbitrary: s1 s2)
  case Nil
  then show ?case by simp
next
  case (Cons p ps)
  have same: "map_of (data_map s1) (name p) = map_of (data_map s2) (name p)"
    using Cons.prems(1) by simp
  have rest: "\<forall>q\<in>set ps. map_of (data_map s1) (name q) = map_of (data_map s2) (name q)"
    using Cons.prems(1) by simp
  show ?case
  proof (cases "map_of (data_map s2) (name p)")
    case (Some v)
    with same Cons.prems(2,3) rest
      Cons.IH [of "kwargs_add (name p) v s1" "kwargs_add (name p) v s2"]
      Cons.IH [of "args_add v s1" "args_add v s2"]
    show ?thesis
      by (cases "kind p") (simp_all add: get_arg_value_def)
  next
    case None
    note absent = this
    show ?thesis
    proof (cases "default_value p")
      case None
      with absent same Cons.prems(2,3) show ?thesis
        by (cases "kind p") (simp_all add: get_arg_value_def)
    next
      case (Some v)
      with absent same Cons.prems(2,3) rest
        Cons.IH [of "kwargs_add (name p) v s1" "kwargs_add (name p) v s2"]
        Cons.IH [of "args_add v s1" "args_add v s2"]
      show ?thesis
        by (cases "kind p") (simp_all add: get_arg_value_def)
    qed
  qed
qed

lemma populate_args_fst:
  "fst (populate_args f d) =
     (case fst (populate_loop (sig f) \<lparr>data_map = d, args = [], kwargs = []\<rparr>) of
        Inl e \<Rightarrow> Inl e
      | Inr u \<Rightarrow>
          Inr (args (snd (populate_loop (sig f) \<lparr>data_map = d, args = [], kwargs = []\<rparr>)),
               kwargs (snd (populate_loop (sig f) \<lparr>data_map = d, args = [], kwargs = []\<rparr>))))"
  by (cases "populate_loop (sig f) \<lparr>data_map = d, args = [], kwargs = []\<rparr>")
    (auto simp: populate_args_def split: sum.splits)

lemma call_with_args_fst:
  "fst (call_with_args f d) =
     (case fst (populate_args f d) of Inl e \<Rightarrow> Inl e | Inr (a, k) \<Rightarrow> call f a k)"
  by (cases "populate_args f d") (auto simp: call_with_args_def split: sum.splits)




lemma named_values_supplied:
  "\<forall>p\<in>set ps. map_of d (name p) \<noteq> None \<Longrightarrow>
   map (\<lambda>(n, v). (n, Some v)) (named_values ps d) = map (\<lambda>p. (name p, supplied_value p d)) ps"
  by (induction ps) (auto simp: named_values_def supplied_value_def)

lemma inj_item_Some: "inj (\<lambda>(n, v). (n, Some v))"
  by (auto simp: inj_on_def)

lemma populate_args_success:
  assumes "fst (populate_args f d) = Inr (a, k)"
  shows "fst (populate_loop (sig f) \<lparr>data_map = d, args = [], kwargs = []\<rparr>) = Inr ()"
    and "a = args (snd (populate_loop (sig f) \<lparr>data_map = d, args = [], kwargs = []\<rparr>))"
    and "k = kwargs (snd (populate_loop (sig f) \<lparr>data_map = d, args = [], kwargs = []\<rparr>))"
  using assms by (auto simp: populate_args_fst split: sum.splits)

lemma populate_args_positional:
  assumes "fst (populate_args f d) = Inr (a, k)"
  shows "map Some a =
    map (\<lambda>p. supplied_value p d) (filter (\<lambda>p. kind p = POSITIONAL_ONLY) (sig f))"
  using loop_args [OF populate_args_success(1) [OF assms]] populate_args_success(2) [OF assms]
  by simp

lemma populate_args_keyword:
  assumes "fst (populate_args f d) = Inr (a, k)" and "distinct (map name (sig f))"
  shows "map (\<lambda>(n, v). (n, Some v)) k =
    map (\<lambda>p. (name p, supplied_value p d)) (filter (\<lambda>p. kind p \<noteq> POSITIONAL_ONLY) (sig f))"
  using loop_kwargs [OF populate_args_success(1) [OF assms(1)] assms(2)]
    populate_args_success(3) [OF assms(1)]
  by simp

lemma populate_args_outcome:
  "fst (populate_args f d) =
     (case find (\<lambda>p. \<not> resolvable p d) (sig f) of
        None \<Rightarrow> fst (populate_args f d)
      | Some q \<Rightarrow> Inl (resolution_error q d))"
  by (simp add: populate_args_fst loop_outcome split: option.splits)

lemma populate_args_resolvable:
  "\<forall>p\<in>set (sig f). resolvable p d \<Longrightarrow> \<exists>a k. fst (populate_args f d) = Inr (a, k)"
  by (simp add: populate_args_fst loop_outcome find_None_iff [THEN iffD2]
      split: option.splits)

lemma unsupported_message_inj:
  assumes "is_var ka" and "is_var kb"
    and "unsupported_message ka na = unsupported_message kb nb"
  shows "ka = kb \<and> na = nb"
  using assms by (auto simp: is_var_def unsupported_message_def quoted_def)

lemma populate_args_first_unresolvable:
  "find (\<lambda>q. is_var (kind q) \<or> supplied_value q d = None) (sig f) = Some q \<Longrightarrow>
   fst (populate_args f d) = Inl (resolution_error q d)
   \<and> fst (call_with_args f d) = Inl (resolution_error q d)"
  using populate_args_outcome [of f d]
  by (simp add: resolvable_def call_with_args_fst)

lemma populate_args_all_resolvable:
  "find (\<lambda>q. is_var (kind q) \<or> supplied_value q d = None) (sig f) = None \<Longrightarrow>
   \<exists>a k. fst (populate_args f d) = Inr (a, k)"
  using populate_args_resolvable [of f d]
  by (simp add: resolvable_def find_None_iff)

subsection \<open>Lemmas on the functions over objects\<close>

lemma getitem_plain:
  "default_factory m = None \<Longrightarrow> getitem m key = (map_of (items m) key, m)"
  by (simp add: getitem_def split: option.splits)

lemma get_arg_value_obj_plain:
  "default_factory m = None \<Longrightarrow> get_arg_value_obj p m = (get_arg_value p (items m), m)"
  by (simp add: get_arg_value_obj_def get_arg_value_def getitem_plain split: option.splits)

lemma loop_obj_plain:
  "default_factory (obj_data_map s) = None \<Longrightarrow>
   fst (populate_loop_obj ps s) =
     fst (populate_loop ps
       \<lparr>data_map = items (obj_data_map s), args = obj_args s, kwargs = obj_kwargs s\<rparr>)
   \<and> obj_data_map (snd (populate_loop_obj ps s)) = obj_data_map s
   \<and> obj_args (snd (populate_loop_obj ps s)) =
       args (snd (populate_loop ps
         \<lparr>data_map = items (obj_data_map s), args = obj_args s, kwargs = obj_kwargs s\<rparr>))
   \<and> obj_kwargs (snd (populate_loop_obj ps s)) =
       kwargs (snd (populate_loop ps
         \<lparr>data_map = items (obj_data_map s), args = obj_args s, kwargs = obj_kwargs s\<rparr>))"
proof (induction ps arbitrary: s)
  case Nil
  show ?case by simp
next
  case (Cons p ps)
  note plain = Cons.prems
  show ?case
  proof (cases "get_arg_value p (items (obj_data_map s))")
    case (Inl e)
    with plain show ?thesis
      by (cases "kind p") (simp_all add: get_arg_value_obj_plain)
  next
    case (Inr v)
    with plain
      Cons.IH [of "s\<lparr>obj_data_map := obj_data_map s,
                      obj_kwargs := AList.update (name p) v (obj_kwargs s)\<rparr>"]
      Cons.IH [of "s\<lparr>obj_data_map := obj_data_map s, obj_args := obj_args s @ [v]\<rparr>"]
    show ?thesis
      by (cases "kind p")
        (simp_all add: get_arg_value_obj_plain args_add_def kwargs_add_def)
  qed
qed

lemma populate_args_obj_plain:
  assumes "default_factory m = None"
  shows "populate_args_obj f m =
    (case fst (populate_loop (eff_sig f) \<lparr>data_map = items m, args = [], kwargs = []\<rparr>) of
       Inl e \<Rightarrow> Inl e
     | Inr u \<Rightarrow>
         Inr (args (snd (populate_loop (eff_sig f) \<lparr>data_map = items m, args = [], kwargs = []\<rparr>)),
              kwargs (snd (populate_loop (eff_sig f) \<lparr>data_map = items m, args = [], kwargs = []\<rparr>))),
     m)"
  using loop_obj_plain [of "\<lparr>obj_data_map = m, obj_args = [], obj_kwargs = []\<rparr>" "eff_sig f"] assms
  by (cases "populate_loop_obj (eff_sig f) \<lparr>obj_data_map = m, obj_args = [], obj_kwargs = []\<rparr>")
    (auto simp: populate_args_obj_def split: sum.splits)

lemma leaving_mapping_simps [simp]:
  "eff_sig (leaving_mapping f) = sig f"
  "eff_call (leaving_mapping f) a k m = (call f a k, m)"
  by (simp_all add: leaving_mapping_def)

lemma objects_agree:
  assumes "default_factory m = None"
  shows "populate_args_obj (leaving_mapping f) m = (fst (populate_args f (items m)), m)"
    and "call_with_args_obj (leaving_mapping f) m = (fst (call_with_args f (items m)), m)"
proof -
  show one: "populate_args_obj (leaving_mapping f) m = (fst (populate_args f (items m)), m)"
    by (simp add: populate_args_obj_plain [OF assms] populate_args_fst cong: sum.case_cong)
  show "call_with_args_obj (leaving_mapping f) m = (fst (call_with_args f (items m)), m)"
    by (cases "fst (populate_args f (items m))")
      (auto simp: call_with_args_obj_def one call_with_args_fst)
qed

text \<open>The definitions to unfold when an example is evaluated.\<close>

lemmas example_simps =
  populate_args_def call_with_args_def get_arg_value_def args_add_def kwargs_add_def
  quoted_def supplied_value_def is_var_def unsupported_message_def binding_error_def

subsection \<open>The examples of the docstring\<close>

text \<open>The six calls in the docstring of \<^verbatim>\<open>call_with_args\<close>, evaluated on the model.\<close>

lemma doctest_square:
  "fst (call_with_args square [(''n'', PyInt 5), (''s'', PyInt 4), (''tm'', PyInt 3)])
     = Inr (PyInt 25)"
  by (simp add: example_simps square_def)

lemma doctest_func_param:
  "fst (call_with_args func_param [(''param'', PyStr ''foo'')]) = Inr (PyStr ''foo'')"
  by (simp add: example_simps func_param_def)

lemma doctest_func_other:
  "fst (call_with_args func_param [(''other'', PyStr ''foo'')])
     = Inl (ParameterError ''param'' [''other''])"
  by (simp add: example_simps func_param_def)

lemma doctest_var_positional:
  "fst (call_with_args lambda_var_positional [(''args'', PyList [PyInt 1])])
     = Inl (TypeError (''Unable to populate VAR_POSITIONAL parameter '' @ quoted ''args''))"
  by (simp add: example_simps lambda_var_positional_def)

lemma doctest_var_keyword:
  "fst (call_with_args lambda_var_keyword [(''args'', PyList [PyInt 1])])
     = Inl (TypeError (''Unable to populate VAR_KEYWORD parameter '' @ quoted ''args''))"
  by (simp add: example_simps lambda_var_keyword_def)

lemma doctest_lambda_abc:
  "fst (call_with_args lambda_abc [(''a'', PyInt 1), (''b'', PyInt 3)])
     = Inr (PyTuple [PyInt 1, PyInt 3, PyInt 2])"
  by (simp add: example_simps lambda_abc_def)

subsection \<open>The properties\<close>

text \<open>
  A signature of Python never has two parameters of one name (\<^verbatim>\<open>inspect.Signature\<close>
  refuses it), which is the hypothesis \<open>distinct (map name (sig f))\<close> where it appears
  below. The first component of the result of \<^verbatim>\<open>populate_args\<close> and of
  \<^verbatim>\<open>call_with_args\<close> is what the function returns or raises, the second is the
  caller's mapping afterwards.
\<close>

text \<open>
  Claim C1. For a callable whose parameters are all positional-or-keyword or keyword-only,
  and a data mapping that has a value under the name of each of them,
  \<^verbatim>\<open>call_with_args\<close> gives exactly what the direct call gives that names each
  parameter and passes the mapping's value for it: the same value, or the same exception.
\<close>

theorem call_with_args_direct:
  assumes "distinct (map name (sig f))"
    and "\<forall>p\<in>set (sig f).
           (kind p = POSITIONAL_OR_KEYWORD \<or> kind p = KEYWORD_ONLY) \<and> map_of d (name p) \<noteq> None"
  shows "fst (call_with_args f d) = call f [] (named_values (sig f) d)"
proof -
  have "\<forall>p\<in>set (sig f). resolvable p d"
    using assms(2) by (auto simp: resolvable_def is_var_def supplied_value_def)
  then obtain a k where ok: "fst (populate_args f d) = Inr (a, k)"
    using populate_args_resolvable by blast
  have "filter (\<lambda>p. kind p = POSITIONAL_ONLY) (sig f) = []"
    using assms(2) by (auto simp: filter_empty_conv)
  then have a: "a = []"
    using populate_args_positional [OF ok] by simp
  have "filter (\<lambda>p. kind p \<noteq> POSITIONAL_ONLY) (sig f) = sig f"
    using assms(2) by (auto simp: filter_id_conv)
  then have "map (\<lambda>(n, v). (n, Some v)) k = map (\<lambda>p. (name p, supplied_value p d)) (sig f)"
    using populate_args_keyword [OF ok assms(1)] by simp
  also have "\<dots> = map (\<lambda>(n, v). (n, Some v)) (named_values (sig f) d)"
    using assms(2) by (simp add: named_values_supplied)
  finally have k: "k = named_values (sig f) d"
    by (simp add: inj_map_eq_map [OF inj_item_Some])
  show ?thesis
    by (simp add: call_with_args_fst ok a k)
qed

text \<open>The first example of the docstring: \<^verbatim>\<open>a(n=5)\<close> is 25.\<close>

theorem call_with_args_direct_witness:
  "distinct (map name (sig square))
   \<and> list_all (\<lambda>p. (kind p = POSITIONAL_OR_KEYWORD \<or> kind p = KEYWORD_ONLY)
         \<and> map_of [(''n'', PyInt 5), (''s'', PyInt 4), (''tm'', PyInt 3)] (name p) \<noteq> None)
       (sig square)
   \<and> fst (call_with_args square [(''n'', PyInt 5), (''s'', PyInt 4), (''tm'', PyInt 3)])
       = Inr (PyInt 25)"
proof -
  have h1: "distinct (map name (sig square))"
    by (simp add: square_def)
  have h2: "\<forall>p\<in>set (sig square).
         (kind p = POSITIONAL_OR_KEYWORD \<or> kind p = KEYWORD_ONLY)
         \<and> map_of [(''n'', PyInt 5), (''s'', PyInt 4), (''tm'', PyInt 3)] (name p) \<noteq> None"
    by (simp add: square_def)
  show ?thesis
    using h1 h2 call_with_args_direct [OF h1 h2]
    by (simp add: square_def named_values_def)
qed









text \<open>
  Claim C5. Let \<open>q\<close> be the offending parameter: the first one, in declared order, that
  is of a variable kind or has neither key nor default. If there is none, resolution
  succeeds. If \<open>q\<close> is of a variable kind, \<^verbatim>\<open>populate_args\<close> and \<^verbatim>\<open>call_with_args\<close> raise
  the \<^verbatim>\<open>TypeError\<close> whose message is the one for the kind and the name of \<open>q\<close>;
  otherwise they raise the \<^verbatim>\<open>ParameterError\<close> for \<open>q\<close>. A \<^verbatim>\<open>TypeError\<close> is never a
  \<^verbatim>\<open>ParameterError\<close>, so the caller can tell the two. The message reads as in the
  source, and tells both the kind and the name: two such messages are equal only for the
  same kind and the same name.
\<close>

theorem unsupported_kind_error_identity:
  "(case find (\<lambda>q. is_var (kind q) \<or> supplied_value q d = None) (sig f) of
      None \<Rightarrow> (\<exists>a k. fst (populate_args f d) = Inr (a, k))
    | Some q \<Rightarrow>
        (if is_var (kind q)
         then fst (populate_args f d) = Inl (TypeError (unsupported_message (kind q) (name q)))
           \<and> fst (call_with_args f d) = Inl (TypeError (unsupported_message (kind q) (name q)))
         else fst (populate_args f d) = Inl (ParameterError (name q) (map fst d))
           \<and> fst (call_with_args f d) = Inl (ParameterError (name q) (map fst d))))
   \<and> unsupported_message VAR_KEYWORD key
       = ''Unable to populate VAR_KEYWORD parameter '' @ quoted key
   \<and> unsupported_message VAR_POSITIONAL key
       = ''Unable to populate VAR_POSITIONAL parameter '' @ quoted key
   \<and> TypeError m \<noteq> ParameterError n ks
   \<and> (is_var ka \<and> is_var kb \<and> unsupported_message ka na = unsupported_message kb nb
        \<longrightarrow> ka = kb \<and> na = nb)"
proof -
  let ?P = "\<lambda>q. is_var (kind q) \<or> supplied_value q d = None"
  have outcome: "case find ?P (sig f) of
      None \<Rightarrow> (\<exists>a k. fst (populate_args f d) = Inr (a, k))
    | Some q \<Rightarrow>
        (if is_var (kind q)
         then fst (populate_args f d) = Inl (TypeError (unsupported_message (kind q) (name q)))
           \<and> fst (call_with_args f d) = Inl (TypeError (unsupported_message (kind q) (name q)))
         else fst (populate_args f d) = Inl (ParameterError (name q) (map fst d))
           \<and> fst (call_with_args f d) = Inl (ParameterError (name q) (map fst d)))"
  proof (cases "find ?P (sig f)")
    case None
    then show ?thesis
      using populate_args_all_resolvable [of d f] by simp
  next
    case (Some q)
    from populate_args_first_unresolvable [OF this] Some show ?thesis
      by (simp add: resolution_error_def)
  qed
  have texts: "unsupported_message VAR_KEYWORD key
       = ''Unable to populate VAR_KEYWORD parameter '' @ quoted key"
    "unsupported_message VAR_POSITIONAL key
       = ''Unable to populate VAR_POSITIONAL parameter '' @ quoted key"
    by (simp_all add: unsupported_message_def)
  have tell: "is_var ka \<and> is_var kb \<and> unsupported_message ka na = unsupported_message kb nb
        \<longrightarrow> ka = kb \<and> na = nb"
    using unsupported_message_inj [of ka kb na nb] by blast
  from outcome texts tell show ?thesis
    by simp
qed

text \<open>
  The fifth example of the docstring, \<^verbatim>\<open>lambda **args: args\<close>; a function with two
  parameters of variable kinds, where the message names the first; and \<^verbatim>\<open>first_of\<close>
  with the empty mapping, where the offending parameter is not the variable one.
\<close>

theorem unsupported_kind_error_identity_witness:
  "fst (populate_args lambda_var_keyword [(''args'', PyList [PyInt 1])])
     = Inl (TypeError (''Unable to populate VAR_KEYWORD parameter '' @ quoted ''args''))
   \<and> fst (populate_args lambda_args_kw [])
     = Inl (TypeError (''Unable to populate VAR_POSITIONAL parameter '' @ quoted ''args''))
   \<and> fst (call_with_args lambda_args_kw [(''kw'', PyInt 1)])
     = Inl (TypeError (''Unable to populate VAR_POSITIONAL parameter '' @ quoted ''args''))
   \<and> fst (populate_args first_of []) = Inl (ParameterError ''a'' [])
   \<and> unsupported_message VAR_KEYWORD ''args'' \<noteq> unsupported_message VAR_POSITIONAL ''args''
   \<and> unsupported_message VAR_KEYWORD ''args'' \<noteq> unsupported_message VAR_KEYWORD ''kwargs''"
proof -
  have v: "is_var VAR_KEYWORD" "is_var VAR_POSITIONAL"
    by (simp_all add: is_var_def)
  note t = unsupported_kind_error_identity
  have "unsupported_message VAR_KEYWORD ''args'' \<noteq> unsupported_message VAR_POSITIONAL ''args''"
    using t [where ka = VAR_KEYWORD and kb = VAR_POSITIONAL and na = "''args''"
        and nb = "''args''"] v
    by auto
  moreover
  have "unsupported_message VAR_KEYWORD ''args'' \<noteq> unsupported_message VAR_KEYWORD ''kwargs''"
    using t [where ka = VAR_KEYWORD and kb = VAR_KEYWORD and na = "''args''"
        and nb = "''kwargs''"] v
    by auto
  moreover
  have "fst (populate_args lambda_var_keyword [(''args'', PyList [PyInt 1])])
     = Inl (TypeError (''Unable to populate VAR_KEYWORD parameter '' @ quoted ''args''))"
    using t [where d = "[(''args'', PyList [PyInt 1])]" and f = lambda_var_keyword]
    by (simp add: lambda_var_keyword_def is_var_def supplied_value_def unsupported_message_def)
  moreover
  have "fst (populate_args lambda_args_kw [])
     = Inl (TypeError (''Unable to populate VAR_POSITIONAL parameter '' @ quoted ''args''))"
    using t [where d = "[]" and f = lambda_args_kw]
    by (simp add: lambda_args_kw_def is_var_def supplied_value_def unsupported_message_def)
  moreover
  have "fst (call_with_args lambda_args_kw [(''kw'', PyInt 1)])
     = Inl (TypeError (''Unable to populate VAR_POSITIONAL parameter '' @ quoted ''args''))"
    using t [where d = "[(''kw'', PyInt 1)]" and f = lambda_args_kw]
    by (simp add: lambda_args_kw_def is_var_def supplied_value_def unsupported_message_def)
  moreover
  have "fst (populate_args first_of []) = Inl (ParameterError ''a'' [])"
    using t [where d = "[]" and f = first_of]
    by (simp add: first_of_def is_var_def supplied_value_def)
  ultimately show ?thesis
    by simp
qed

text \<open>
  Claim C6. When \<^verbatim>\<open>populate_args\<close> succeeds, its list of positional values is, value
  for value and in declared order, the values given to the positional-only parameters of
  the signature.
\<close>

theorem positional_values_in_declared_order:
  assumes "fst (populate_args f d) = Inr (a, k)"
  shows "map Some a =
    map (\<lambda>p. supplied_value p d) (filter (\<lambda>p. kind p = POSITIONAL_ONLY) (sig f))"
  using assms by (rule populate_args_positional)

text \<open>\<^verbatim>\<open>pair_then(x, y=0, /, *, z)\<close> with \<^verbatim>\<open>{'z': 1, 'x': 3}\<close>: the list is \<^verbatim>\<open>[3, 0]\<close>.\<close>

theorem positional_values_in_declared_order_witness:
  "fst (populate_args pair_then [(''z'', PyInt 1), (''x'', PyInt 3)])
     = Inr ([PyInt 3, PyInt 0], [(''z'', PyInt 1)])
   \<and> map Some [PyInt 3, PyInt 0] =
       map (\<lambda>p. supplied_value p [(''z'', PyInt 1), (''x'', PyInt 3)])
         (filter (\<lambda>p. kind p = POSITIONAL_ONLY) (sig pair_then))"
proof -
  have h: "fst (populate_args pair_then [(''z'', PyInt 1), (''x'', PyInt 3)])
     = Inr ([PyInt 3, PyInt 0], [(''z'', PyInt 1)])"
    by (simp add: example_simps pair_then_def)
  show ?thesis
    using h positional_values_in_declared_order [OF h] by simp
qed

text \<open>
  Claim C7 says that two mappings that agree on the declared names give the same result
  and, on failure, the same error. It fails for \<^verbatim>\<open>def a(n)\<close> with \<^verbatim>\<open>{}\<close> and
  \<^verbatim>\<open>{'s': 4}\<close>, which agree on \<^verbatim>\<open>n\<close> (neither has it): the \<^verbatim>\<open>ParameterError\<close> of
  the one lists no key, that of the other lists \<^verbatim>\<open>s\<close>.
\<close>

theorem extra_key_changes_missing_parameter_error:
  "map_of ([] :: pyvalue dict) ''n'' = map_of [(''s'', PyInt 4)] ''n''
   \<and> fst (populate_args square []) = Inl (ParameterError ''n'' [])
   \<and> fst (populate_args square [(''s'', PyInt 4)]) = Inl (ParameterError ''n'' [''s''])
   \<and> fst (populate_args square []) \<noteq> fst (populate_args square [(''s'', PyInt 4)])
   \<and> fst (call_with_args square []) \<noteq> fst (call_with_args square [(''s'', PyInt 4)])"
  by (simp add: example_simps square_def)

text \<open>
  Claim C7, amended. For two data mappings that agree on every declared parameter name,
  \<^verbatim>\<open>populate_args\<close> and \<^verbatim>\<open>call_with_args\<close> succeed on both or fail on both. On
  success \<^verbatim>\<open>populate_args\<close> returns the same arguments and \<^verbatim>\<open>call_with_args\<close> the
  same result. On failure the exception is the same but for one thing: a
  \<^verbatim>\<open>ParameterError\<close> lists the keys of the mapping that it was raised for. So an extra
  key never raises and never changes a result; it shows in the key list of a
  \<^verbatim>\<open>ParameterError\<close> only.
\<close>

theorem extra_keys_only_show_in_key_list:
  assumes "\<forall>p\<in>set (sig f). map_of d1 (name p) = map_of d2 (name p)"
  shows "fst (populate_args f d2)
           = map_sum (with_valid_args (map fst d2)) id (fst (populate_args f d1))
    \<and> fst (call_with_args f d2)
           = (case fst (populate_args f d1) of
                Inl e \<Rightarrow> Inl (with_valid_args (map fst d2) e)
              | Inr r \<Rightarrow> fst (call_with_args f d1))"
proof -
  let ?s1 = "\<lparr>data_map = d1, args = [], kwargs = []\<rparr>"
  let ?s2 = "\<lparr>data_map = d2, args = [], kwargs = []\<rparr>"
  have "fst (populate_loop (sig f) ?s2) =
           map_sum (with_valid_args (map fst (data_map ?s2))) id (fst (populate_loop (sig f) ?s1))
         \<and> args (snd (populate_loop (sig f) ?s2)) = args (snd (populate_loop (sig f) ?s1))
         \<and> kwargs (snd (populate_loop (sig f) ?s2)) = kwargs (snd (populate_loop (sig f) ?s1))"
    using assms by (intro loop_agree) simp_all
  then have res: "fst (populate_args f d2)
           = map_sum (with_valid_args (map fst d2)) id (fst (populate_args f d1))"
    by (simp add: populate_args_fst split: sum.splits)
  then have "fst (call_with_args f d2)
           = (case fst (populate_args f d1) of
                Inl e \<Rightarrow> Inl (with_valid_args (map fst d2) e)
              | Inr r \<Rightarrow> fst (call_with_args f d1))"
    by (cases "fst (populate_args f d1)") (auto simp: call_with_args_fst)
  with res show ?thesis by simp
qed

text \<open>The first example of the docstring with and without its two extra keys, and the
  pair of mappings for which the claim as stated fails.\<close>

theorem extra_keys_only_show_in_key_list_witness:
  "list_all (\<lambda>p. map_of [(''n'', PyInt 5)] (name p)
       = map_of [(''n'', PyInt 5), (''s'', PyInt 4), (''tm'', PyInt 3)] (name p)) (sig square)
   \<and> fst (populate_args square [(''n'', PyInt 5)]) = Inr ([], [(''n'', PyInt 5)])
   \<and> fst (populate_args square [(''n'', PyInt 5), (''s'', PyInt 4), (''tm'', PyInt 3)])
       = Inr ([], [(''n'', PyInt 5)])
   \<and> fst (call_with_args square [(''n'', PyInt 5), (''s'', PyInt 4), (''tm'', PyInt 3)])
       = fst (call_with_args square [(''n'', PyInt 5)])
   \<and> list_all (\<lambda>p. map_of [] (name p) = map_of [(''s'', PyInt 4)] (name p)) (sig square)
   \<and> fst (populate_args square []) = Inl (ParameterError ''n'' [])
   \<and> fst (call_with_args square [(''s'', PyInt 4)])
       = Inl (with_valid_args [''s''] (ParameterError ''n'' []))"
proof -
  let ?d1 = "[(''n'', PyInt 5)]" and ?d2 = "[(''n'', PyInt 5), (''s'', PyInt 4), (''tm'', PyInt 3)]"
  have h: "\<forall>p\<in>set (sig square). map_of ?d1 (name p) = map_of ?d2 (name p)"
    by (simp add: square_def)
  have g: "\<forall>p\<in>set (sig square). map_of [] (name p) = map_of [(''s'', PyInt 4)] (name p)"
    by (simp add: square_def)
  have r1: "fst (populate_args square ?d1) = Inr ([], [(''n'', PyInt 5)])"
    by (simp add: example_simps square_def)
  have r2: "fst (populate_args square []) = Inl (ParameterError ''n'' [])"
    by (simp add: example_simps square_def)
  show ?thesis
    using extra_keys_only_show_in_key_list [OF h] extra_keys_only_show_in_key_list [OF g] r1 r2
    by (simp add: square_def)
qed

text \<open>
  Claim C8. When the resolution succeeds and the callable, called with the resolved
  arguments, raises an exception, \<^verbatim>\<open>call_with_args\<close> raises exactly that exception.
\<close>

theorem callable_exception_propagates:
  assumes "fst (populate_args f d) = Inr (a, k)" and "call f a k = Inl e"
  shows "fst (call_with_args f d) = Inl e"
  using assms by (simp add: call_with_args_fst)

text \<open>\<^verbatim>\<open>reciprocal(n=0)\<close> raises \<^verbatim>\<open>ZeroDivisionError\<close>.\<close>

theorem callable_exception_propagates_witness:
  "fst (populate_args reciprocal [(''n'', PyInt 0)]) = Inr ([], [(''n'', PyInt 0)])
   \<and> call reciprocal [] [(''n'', PyInt 0)]
       = Inl (Raised ''ZeroDivisionError(integer division or modulo by zero)'')
   \<and> fst (call_with_args reciprocal [(''n'', PyInt 0)])
       = Inl (Raised ''ZeroDivisionError(integer division or modulo by zero)'')"
proof -
  have h1: "fst (populate_args reciprocal [(''n'', PyInt 0)]) = Inr ([], [(''n'', PyInt 0)])"
    by (simp add: example_simps reciprocal_def)
  have h2: "call reciprocal [] [(''n'', PyInt 0)]
       = Inl (Raised ''ZeroDivisionError(integer division or modulo by zero)'')"
    by (simp add: reciprocal_def)
  show ?thesis
    using h1 h2 callable_exception_propagates [OF h1 h2] by simp
qed

text \<open>
  Claim C9 says that for every callable and every data mapping the mapping is, after
  \<^verbatim>\<open>populate_args\<close> or \<^verbatim>\<open>call_with_args\<close>, what it was before. It fails for a
  \<^verbatim>\<open>defaultdict\<close>: \<^verbatim>\<open>data_map[param.name]\<close> for the missing key \<^verbatim>\<open>n\<close> stores \<^verbatim>\<open>n\<close>
  in the mapping. And it fails for a called function that writes to the mapping that
  the caller passes: \<^verbatim>\<open>call_with_args\<close> returns with the mapping as that function
  left it.
\<close>

theorem defaultdict_lookup_and_writing_callable_change_mapping:
  "snd (populate_args_obj (leaving_mapping square) defaultdict_int)
     = \<lparr>items = [(''n'', PyInt 0)], default_factory = Some (PyInt 0)\<rparr>
   \<and> snd (call_with_args_obj (leaving_mapping square) defaultdict_int) \<noteq> defaultdict_int
   \<and> call_with_args_obj remember (plain_dict [(''n'', PyInt 5)])
     = (Inr (PyInt 5), plain_dict [(''n'', PyInt 5), (''last'', PyInt 5)])"
  by (simp add: populate_args_obj_def call_with_args_obj_def get_arg_value_obj_def getitem_def
      leaving_mapping_def square_def defaultdict_int_def remember_def plain_dict_def)

text \<open>
  Claim C9, amended. For every callable and every data mapping that is a plain dict,
  \<^verbatim>\<open>populate_args\<close> leaves the mapping as it was, whether it returns or raises. So
  does \<^verbatim>\<open>call_with_args\<close> when the resolution raises; when the resolution succeeds,
  it calls the function with the mapping as it was and does nothing after the call, so
  that the mapping is afterwards as the called function left it: unchanged, unless that
  function itself writes to it.
\<close>

theorem plain_dict_unchanged_by_module:
  assumes "default_factory m = None"
  shows "snd (populate_args_obj f m) = m
    \<and> (case fst (populate_args_obj f m) of
         Inl e \<Rightarrow> call_with_args_obj f m = (Inl e, m)
       | Inr (a, k) \<Rightarrow> call_with_args_obj f m = eff_call f a k m)"
proof -
  have unchanged: "snd (populate_args_obj f m) = m"
    by (simp add: populate_args_obj_plain [OF assms])
  then have "populate_args_obj f m = (fst (populate_args_obj f m), m)"
    by (metis prod.collapse)
  then have "case fst (populate_args_obj f m) of
         Inl e \<Rightarrow> call_with_args_obj f m = (Inl e, m)
       | Inr (a, k) \<Rightarrow> call_with_args_obj f m = eff_call f a k m"
    by (cases "fst (populate_args_obj f m)") (auto simp: call_with_args_obj_def)
  with unchanged show ?thesis by simp
qed

text \<open>
  The first example of the docstring on a plain dict, with and without the key \<^verbatim>\<open>n\<close>.
\<close>

theorem plain_dict_unchanged_by_module_witness:
  "default_factory (plain_dict [(''n'', PyInt 5), (''s'', PyInt 4)]) = None
   \<and> populate_args_obj (leaving_mapping square) (plain_dict [(''n'', PyInt 5), (''s'', PyInt 4)])
       = (Inr ([], [(''n'', PyInt 5)]), plain_dict [(''n'', PyInt 5), (''s'', PyInt 4)])
   \<and> call_with_args_obj (leaving_mapping square) (plain_dict [(''n'', PyInt 5), (''s'', PyInt 4)])
       = (Inr (PyInt 25), plain_dict [(''n'', PyInt 5), (''s'', PyInt 4)])
   \<and> call_with_args_obj (leaving_mapping square) (plain_dict [(''s'', PyInt 4)])
       = (Inl (ParameterError ''n'' [''s'']), plain_dict [(''s'', PyInt 4)])"
proof -
  let ?m = "plain_dict [(''n'', PyInt 5), (''s'', PyInt 4)]"
  let ?m' = "plain_dict [(''s'', PyInt 4)] :: pyvalue mapping"
  have h: "default_factory ?m = None" and h': "default_factory ?m' = None"
    by (simp_all add: plain_dict_def)
  have r: "fst (populate_args_obj (leaving_mapping square) ?m) = Inr ([], [(''n'', PyInt 5)])"
    by (simp add: populate_args_obj_def get_arg_value_obj_def getitem_def
      leaving_mapping_def square_def plain_dict_def)
  have r': "fst (populate_args_obj (leaving_mapping square) ?m') = Inl (ParameterError ''n'' [''s''])"
    by (simp add: populate_args_obj_def get_arg_value_obj_def getitem_def
      leaving_mapping_def square_def plain_dict_def)
  have c: "eff_call (leaving_mapping square) [] [(''n'', PyInt 5)] ?m = (Inr (PyInt 25), ?m)"
    by (simp add: leaving_mapping_def square_def)
  show ?thesis
    using h r r' c plain_dict_unchanged_by_module [OF h, of "leaving_mapping square"]
      plain_dict_unchanged_by_module [OF h', of "leaving_mapping square"]
    by (auto simp: prod_eq_iff)
qed

text \<open>
  Claim C10. For a callable without positional-only parameters, a successful
  \<^verbatim>\<open>populate_args\<close> returns no positional value at all, and its keyword dict has, in
  declared order, one item for each parameter: the parameter's name with the value given
  to it.
\<close>

theorem no_positional_only_all_by_keyword:
  assumes "distinct (map name (sig f))"
    and "\<forall>p\<in>set (sig f). kind p \<noteq> POSITIONAL_ONLY"
    and "fst (populate_args f d) = Inr (a, k)"
  shows "a = []
    \<and> map (\<lambda>(n, v). (n, Some v)) k = map (\<lambda>p. (name p, supplied_value p d)) (sig f)"
proof -
  have "filter (\<lambda>p. kind p = POSITIONAL_ONLY) (sig f) = []"
    using assms(2) by (auto simp: filter_empty_conv)
  then have "a = []"
    using populate_args_positional [OF assms(3)] by simp
  moreover have "filter (\<lambda>p. kind p \<noteq> POSITIONAL_ONLY) (sig f) = sig f"
    using assms(2) by (auto simp: filter_id_conv)
  then have "map (\<lambda>(n, v). (n, Some v)) k = map (\<lambda>p. (name p, supplied_value p d)) (sig f)"
    using populate_args_keyword [OF assms(3,1)] by simp
  ultimately show ?thesis by simp
qed

text \<open>\<^verbatim>\<open>lambda a, b=1, c=2\<close> with \<^verbatim>\<open>{'b': 3, 'a': 1}\<close>.\<close>

theorem no_positional_only_all_by_keyword_witness:
  "distinct (map name (sig lambda_abc))
   \<and> list_all (\<lambda>p. kind p \<noteq> POSITIONAL_ONLY) (sig lambda_abc)
   \<and> fst (populate_args lambda_abc [(''b'', PyInt 3), (''a'', PyInt 1)])
       = Inr ([], [(''a'', PyInt 1), (''b'', PyInt 3), (''c'', PyInt 2)])
   \<and> map (\<lambda>(n, v). (n, Some v)) [(''a'', PyInt 1), (''b'', PyInt 3), (''c'', PyInt 2)]
       = map (\<lambda>p. (name p, supplied_value p [(''b'', PyInt 3), (''a'', PyInt 1)])) (sig lambda_abc)"
proof -
  have h1: "distinct (map name (sig lambda_abc))"
    by (simp add: lambda_abc_def)
  have h2: "\<forall>p\<in>set (sig lambda_abc). kind p \<noteq> POSITIONAL_ONLY"
    by (simp add: lambda_abc_def)
  have h3: "fst (populate_args lambda_abc [(''b'', PyInt 3), (''a'', PyInt 1)])
       = Inr ([], [(''a'', PyInt 1), (''b'', PyInt 3), (''c'', PyInt 2)])"
    by (simp add: example_simps lambda_abc_def)
  show ?thesis
    using h1 h2 h3 no_positional_only_all_by_keyword [OF h1 h2 h3]
    by (simp add: lambda_abc_def)
qed

end
